theory Spec2Isabelle
  imports Complex_Main "HOL-Library.Word" "HOL-Library.AList"
begin

section \<open>MIG strategy labelers of gpu-feature-discovery (internal/lm/mig-strategy.go)\<close>

text \<open>
  A shallow embedding of \<^verbatim>\<open>internal/lm/mig-strategy.go\<close>. Every Go function of that file
  is a HOL function of the same name. A Go result \<^verbatim>\<open>(T, error)\<close> is a value of
  \<open>error + T\<close> (\<open>Inl\<close> the error); the one side effect of the file, \<^verbatim>\<open>log.Printf\<close>, is
  the list of messages printed, returned in front of the result.
\<close>

subsection \<open>Errors\<close>

text \<open>
  Go errors are opaque values. \<open>NvmlError\<close> is an error handed back by a collaborator
  (the NVML facade, package \<^verbatim>\<open>mig\<close>, the label helpers); \<open>Errorf msg\<close> is
  \<^verbatim>\<open>fmt.Errorf(msg)\<close>; \<open>ErrorfV prefix err\<close> is \<^verbatim>\<open>fmt.Errorf(prefix + "%v", err)\<close>.
\<close>

datatype error = NvmlError string | Errorf string | ErrorfV string error

subsection \<open>The NVML facade (package nvml, an interface)\<close>

text \<open>
  \<^verbatim>\<open>DeviceAttributes\<close> is the attribute struct of the NVML binding: the slice count is a
  \<^verbatim>\<open>uint32\<close> and the memory size a \<^verbatim>\<open>uint64\<close>, so the arithmetic of
  \<^verbatim>\<open>getMigDeviceName\<close> is unsigned 64-bit arithmetic.
\<close>

record DeviceAttributes =
  GpuInstanceSliceCount :: "32 word"
  MemorySizeMB :: "64 word"

text \<open>
  A device is what its methods return. A MIG device is a device too, as in Go
  (both are \<^verbatim>\<open>nvml.Device\<close>).
\<close>

datatype Device = Device
  (GetName: "error + string")
  (GetAttributes: "error + DeviceAttributes")
  (IsMigEnabled: "error + bool")
  (GetMigDevices: "error + Device list")

record Nvml =
  GetDeviceCount :: "error + nat"
  NewDevice :: "nat \<Rightarrow> error + Device"

subsection \<open>Configuration\<close>

text \<open>
  Of \<^verbatim>\<open>spec.Config\<close> the file reads \<^verbatim>\<open>*config.Flags.MigStrategy\<close> only; the pointers are
  taken to be set, as the flag parser leaves them.
\<close>

record Config =
  MigStrategy :: string

definition MigStrategyNone :: string where
  "MigStrategyNone = ''none''"

definition MigStrategySingle :: string where
  "MigStrategySingle = ''single''"

definition MigStrategyMixed :: string where
  "MigStrategyMixed = ''mixed''"

subsection \<open>Labelers\<close>

type_synonym Labels = "(string \<times> string) list"

text \<open>
  The values of the interface \<^verbatim>\<open>Labeler\<close> that this file builds: \<^verbatim>\<open>empty{}\<close>, a label
  map (\<^verbatim>\<open>Labels\<close>), a slice of labelers (\<^verbatim>\<open>list\<close>), the result of \<^verbatim>\<open>Merge(...)\<close> and
  \<^verbatim>\<open>migStrategyLabeler(s)\<close>.
\<close>

datatype Labeler =
  empty
  | LabelsOf Labels
  | list "Labeler list"
  | Merge "Labeler list"
  | migStrategyLabeler string

record resourceLabeler =
  resourceName :: string

text \<open>
  \<^verbatim>\<open>migResource\<close>: the device is an interface value, \<open>None\<close> is Go's nil (the zero value a
  map lookup gives for a missing key).
\<close>

record migResource =
  name :: string
  device :: "Device option"
  count :: int

definition zero_migResource :: migResource where
  "zero_migResource = \<lparr>name = [], device = None, count = 0\<rparr>"

subsection \<open>Collaborators outside the file\<close>

text \<open>
  \<^verbatim>\<open>mig.DeviceInfo\<close> is used through four methods without arguments; the model holds what
  each returns.
\<close>

record DeviceInfo =
  GetDevicesWithMigEnabled :: "error + Device list"
  AnyMigEnabledDeviceIsEmpty :: "error + bool"
  GetDevicesWithMigDisabled :: "error + Device list"
  GetAllMigDevices :: "error + Device list"

text \<open>
  The functions the file calls and does not define are parameters of the model, so every
  theorem below holds for each implementation of them:
  \<^verbatim>\<open>mig.NewDeviceInfo\<close>, \<^verbatim>\<open>NewGPUResourceLabeler\<close>, \<^verbatim>\<open>NewMIGResourceLabeler\<close>,
  the method \<^verbatim>\<open>Labels()\<close> of \<^verbatim>\<open>list\<close>, and \<^verbatim>\<open>productLabel\<close> and \<^verbatim>\<open>updateLabel\<close> of
  \<^verbatim>\<open>resourceLabeler\<close> (\<^verbatim>\<open>updateLabel\<close> writes into the map it is given; the model returns
  the map written).
\<close>

record Collaborators =
  NewDeviceInfo :: "Nvml \<Rightarrow> DeviceInfo"
  NewGPUResourceLabeler :: "Config \<Rightarrow> Device \<Rightarrow> int \<Rightarrow> error + Labeler"
  NewMIGResourceLabeler :: "string \<Rightarrow> Config \<Rightarrow> Device option \<Rightarrow> int \<Rightarrow> error + Labeler"
  list_Labels :: "Labeler list \<Rightarrow> error + Labels"
  productLabel :: "resourceLabeler \<Rightarrow> string list \<Rightarrow> Labels"
  updateLabel :: "resourceLabeler \<Rightarrow> Labels \<Rightarrow> string \<Rightarrow> int \<Rightarrow> Labels"

subsection \<open>getMigDeviceName\<close>

text \<open>The verb \<^verbatim>\<open>%d\<close> of \<^verbatim>\<open>fmt.Sprintf\<close> on an unsigned value: its decimal digits.\<close>

fun Sprintf_d :: "nat \<Rightarrow> string" where
  "Sprintf_d n =
     (if n < 10 then [''0123456789'' ! n]
      else Sprintf_d (n div 10) @ [''0123456789'' ! (n mod 10)])"

declare Sprintf_d.simps [simp del]

definition getMigDeviceName :: "Device \<Rightarrow> error + string" where
  "getMigDeviceName mig =
     (case GetAttributes mig of
        Inl err \<Rightarrow> Inl err
      | Inr attr \<Rightarrow>
          (let g = GpuInstanceSliceCount attr;
               gb = (MemorySizeMB attr + 1024 - 1) div 1024
           in Inr (Sprintf_d (unat g) @ ''g.'' @ Sprintf_d (unat gb) @ ''gb'')))"

subsection \<open>newGPULabelers\<close>

text \<open>
  The loop over the devices ends with an unconditional \<^verbatim>\<open>break\<close>: its body runs for
  \<open>i = 0\<close> when \<open>0 < cnt\<close> and never again. The local \<^verbatim>\<open>count\<close> is \<open>cnt\<close> and \<^verbatim>\<open>device\<close>
  is \<open>dev\<close> (the fields of \<^verbatim>\<open>migResource\<close> have these names); \<^verbatim>\<open>int(count)\<close> is \<open>int cnt\<close>, a
  device count staying far below \<open>2 ^ 63\<close>.
\<close>

definition newGPULabelers_loop :: "Collaborators \<Rightarrow> Nvml \<Rightarrow> Config \<Rightarrow> nat \<Rightarrow> error + Labeler list" where
  "newGPULabelers_loop lm nvmlLib config cnt =
     (if 0 < cnt then
        (case NewDevice nvmlLib 0 of
           Inl err \<Rightarrow> Inl (ErrorfV ''error getting device: '' err)
         | Inr dev \<Rightarrow>
             (case NewGPUResourceLabeler lm config dev (int cnt) of
                Inl err \<Rightarrow> Inl (ErrorfV ''failed to construct labeler: '' err)
              | Inr l \<Rightarrow> Inr ([] @ [l])))
      else Inr [])"

definition newGPULabelers :: "Collaborators \<Rightarrow> Nvml \<Rightarrow> Config \<Rightarrow> error + Labeler" where
  "newGPULabelers lm nvmlLib config =
     (case GetDeviceCount nvmlLib of
        Inl err \<Rightarrow> Inl (ErrorfV ''error getting device count: '' err)
      | Inr cnt \<Rightarrow>
          if cnt = 0 then Inl (Errorf ''no GPU devices detected'')
          else
            (case newGPULabelers_loop lm nvmlLib config cnt of
               Inl err \<Rightarrow> Inl err
             | Inr labelers \<Rightarrow>
                 (case list_Labels lm labelers of
                    Inl err \<Rightarrow> Inl err
                  | Inr labels \<Rightarrow> Inr (LabelsOf labels))))"

subsection \<open>newInvalidMigStrategyLabeler\<close>

definition newInvalidMigStrategyLabeler ::
  "Collaborators \<Rightarrow> Nvml \<Rightarrow> string \<Rightarrow> string list \<times> (error + Labeler)" where
  "newInvalidMigStrategyLabeler lm nvml reason =
     ([''WARNING: Invalid configuration detected for mig-strategy=single: '' @ reason],
      (case NewDevice nvml 0 of
         Inl err \<Rightarrow> Inl (ErrorfV ''error getting device: '' err)
       | Inr dev \<Rightarrow>
           (case GetName dev of
              Inl err \<Rightarrow> Inl (ErrorfV ''failed to get device model: '' err)
            | Inr model \<Rightarrow>
                (let rl = \<lparr>resourceName = ''nvidia.com/gpu''\<rparr>;
                     labels = productLabel lm rl [model, ''MIG'', ''INVALID''];
                     labels = updateLabel lm rl labels ''count'' 0;
                     labels = updateLabel lm rl labels ''memory'' 0
                 in Inr (LabelsOf labels)))))"

subsection \<open>newMIGDeviceLabelers\<close>

text \<open>
  The map \<^verbatim>\<open>resources\<close> is an association list with one entry per key, in the order the
  keys were first stored. Go leaves the order in which \<^verbatim>\<open>range\<close> visits a map open; the
  model visits the entries in that stored order, and the theorems speak of the entries, not
  of their order.
\<close>

fun newMIGDeviceLabelers_loop ::
  "Collaborators \<Rightarrow> (string \<times> migResource) list \<Rightarrow> Config \<Rightarrow> Labeler list \<Rightarrow> error + Labeler list" where
  "newMIGDeviceLabelers_loop lm [] config labelers = Inr labelers"
| "newMIGDeviceLabelers_loop lm ((k, resource) # resources) config labelers =
     (case NewMIGResourceLabeler lm (name resource) config (device resource) (count resource) of
        Inl err \<Rightarrow> Inl (ErrorfV ''failed to construct labeler: '' err)
      | Inr l \<Rightarrow> newMIGDeviceLabelers_loop lm resources config (labelers @ [l]))"

definition newMIGDeviceLabelers ::
  "Collaborators \<Rightarrow> (string \<times> migResource) list \<Rightarrow> Config \<Rightarrow> error + Labeler" where
  "newMIGDeviceLabelers lm resources config =
     (case newMIGDeviceLabelers_loop lm resources config [] of
        Inl err \<Rightarrow> Inl err
      | Inr labelers \<Rightarrow> Inr (list labelers))"

subsection \<open>newMigStrategySingleLabeler\<close>

text \<open>The loop of lines 178 to 194, from the map built so far.\<close>

fun single_resources ::
  "Device list \<Rightarrow> (string \<times> migResource) list \<Rightarrow> error + (string \<times> migResource) list" where
  "single_resources [] resources = Inr resources"
| "single_resources (mig # migs) resources =
     (case getMigDeviceName mig of
        Inl err \<Rightarrow> Inl (ErrorfV ''unable to parse MIG device name: '' err)
      | Inr nm \<Rightarrow>
          (let (resource, exists) =
                 (case map_of resources nm of
                    None \<Rightarrow> (zero_migResource, False)
                  | Some r \<Rightarrow> (r, True));
               resource =
                 (if \<not> exists then resource\<lparr>device := Some mig, name := ''nvidia.com/gpu''\<rparr>
                  else resource);
               resource = resource\<lparr>count := count resource + 1\<rparr>
           in single_resources migs (AList.update nm resource resources)))"

definition newMigStrategySingleLabeler ::
  "Collaborators \<Rightarrow> Nvml \<Rightarrow> Config \<Rightarrow> string list \<times> (error + Labeler)" where
  "newMigStrategySingleLabeler lm nvmlLib config =
     (let deviceInfo = NewDeviceInfo lm nvmlLib in
      case GetDevicesWithMigEnabled deviceInfo of
        Inl err \<Rightarrow> ([], Inl (ErrorfV ''unabled to retrieve list of MIG-enabled devices: '' err))
      | Inr migEnabledDevices \<Rightarrow>
          if length migEnabledDevices = 0 then ([], Inr empty)
          else
            (case AnyMigEnabledDeviceIsEmpty deviceInfo of
               Inl err \<Rightarrow> ([], Inl (ErrorfV ''failed to check for empty MIG-enabled devices: '' err))
             | Inr hasEmpty \<Rightarrow>
                 if hasEmpty
                 then newInvalidMigStrategyLabeler lm nvmlLib ''at least one MIG device is enabled but empty''
                 else
                   (case GetDevicesWithMigDisabled deviceInfo of
                      Inl err \<Rightarrow>
                        ([], Inl (ErrorfV ''unabled to retrieve list of non-MIG-enabled devices: '' err))
                    | Inr migDisabledDevices \<Rightarrow>
                        if length migDisabledDevices \<noteq> 0
                        then newInvalidMigStrategyLabeler lm nvmlLib
                               ''devices with MIG enabled and disable detected''
                        else
                          (case GetAllMigDevices deviceInfo of
                             Inl err \<Rightarrow> ([], Inl (ErrorfV ''unable to retrieve list of MIG devices: '' err))
                           | Inr migs \<Rightarrow>
                               (case single_resources migs [] of
                                  Inl err \<Rightarrow> ([], Inl err)
                                | Inr resources \<Rightarrow>
                                    if length resources \<noteq> 1
                                    then newInvalidMigStrategyLabeler lm nvmlLib
                                           ''more than one MIG device type present on node''
                                    else ([], newMIGDeviceLabelers lm resources config))))))"

subsection \<open>newMigStrategyMixedLabeler\<close>

text \<open>The loop of lines 242 to 258.\<close>

fun mixed_resources ::
  "Device list \<Rightarrow> (string \<times> migResource) list \<Rightarrow> error + (string \<times> migResource) list" where
  "mixed_resources [] resources = Inr resources"
| "mixed_resources (mig # migs) resources =
     (case getMigDeviceName mig of
        Inl err \<Rightarrow> Inl (ErrorfV ''unable to parse MIG device name: '' err)
      | Inr nm \<Rightarrow>
          (let (resource, exists) =
                 (case map_of resources nm of
                    None \<Rightarrow> (zero_migResource, False)
                  | Some r \<Rightarrow> (r, True));
               resource =
                 (if \<not> exists then resource\<lparr>device := Some mig, name := ''nvidia.com/mig-'' @ nm\<rparr>
                  else resource);
               resource = resource\<lparr>count := count resource + 1\<rparr>
           in mixed_resources migs (AList.update nm resource resources)))"

definition newMigStrategyMixedLabeler :: "Collaborators \<Rightarrow> Nvml \<Rightarrow> Config \<Rightarrow> error + Labeler" where
  "newMigStrategyMixedLabeler lm nvmlLib config =
     (let deviceInfo = NewDeviceInfo lm nvmlLib in
      case GetAllMigDevices deviceInfo of
        Inl err \<Rightarrow> Inl (ErrorfV ''unable to retrieve list of MIG devices: '' err)
      | Inr migs \<Rightarrow>
          (case mixed_resources migs [] of
             Inl err \<Rightarrow> Inl err
           | Inr resources \<Rightarrow> newMIGDeviceLabelers lm resources config))"

subsection \<open>newMigLabeler and NewResourceLabeler\<close>

definition newMigLabeler ::
  "Collaborators \<Rightarrow> Nvml \<Rightarrow> Config \<Rightarrow> string list \<times> (error + Labeler)" where
  "newMigLabeler lm nvmlLib config =
     (if MigStrategy config = MigStrategyNone then
        ([], Inr (Merge [migStrategyLabeler (MigStrategy config), empty]))
      else if MigStrategy config = MigStrategySingle then
        (case newMigStrategySingleLabeler lm nvmlLib config of
           (msgs, Inl err) \<Rightarrow>
             (msgs, Inl (ErrorfV ''failed to create labeler for mig-strategy=single: '' err))
         | (msgs, Inr labeler) \<Rightarrow>
             (msgs, Inr (Merge [migStrategyLabeler (MigStrategy config), labeler])))
      else if MigStrategy config = MigStrategyMixed then
        (case newMigStrategyMixedLabeler lm nvmlLib config of
           Inl err \<Rightarrow> ([], Inl (ErrorfV ''failed to create labeler for mig-strategy=mixed: '' err))
         | Inr labeler \<Rightarrow> ([], Inr (Merge [migStrategyLabeler (MigStrategy config), labeler])))
      else ([], Inl (Errorf (''unknown strategy: '' @ MigStrategy config))))"

text \<open>
  \<^verbatim>\<open>spec.MigStrategyNone\<close>, the constant of the device plugin's configuration API that
  \<^verbatim>\<open>NewResourceLabeler\<close> compares with, is the string \<^verbatim>\<open>none\<close>.
\<close>

definition spec_MigStrategyNone :: string where
  "spec_MigStrategyNone = ''none''"

definition NewResourceLabeler ::
  "Collaborators \<Rightarrow> Nvml \<Rightarrow> Config \<Rightarrow> string list \<times> (error + Labeler)" where
  "NewResourceLabeler lm nvmlLib config =
     (case GetDeviceCount nvmlLib of
        Inl err \<Rightarrow> ([], Inl (ErrorfV ''error getting device count: '' err))
      | Inr cnt \<Rightarrow>
          if cnt = 0 then ([], Inr empty)
          else
            (case newGPULabelers lm nvmlLib config of
               Inl err \<Rightarrow> ([], Inl (ErrorfV ''failed to construct GPU labeler: '' err))
             | Inr fullGPULabeler \<Rightarrow>
                 if MigStrategy config = spec_MigStrategyNone then ([], Inr fullGPULabeler)
                 else
                   (case newMigLabeler lm nvmlLib config of
                      (msgs, Inl err) \<Rightarrow>
                        (msgs, Inl (ErrorfV ''failed to construct MIG resource labeler: '' err))
                    | (msgs, Inr migLabeler) \<Rightarrow>
                        (msgs, Inr (Merge [fullGPULabeler, migLabeler])))))"

subsection \<open>The two aggregation loops in one form\<close>

text \<open>
  \<open>single_resources\<close> and \<open>mixed_resources\<close> differ only in the resource name given to
  a new entry. \<open>resources_loop rn\<close> is the loop with that name as a function \<open>rn\<close> of the
  key; it is shown equal to both and carries the proofs about them.
\<close>

fun resources_loop ::
  "(string \<Rightarrow> string) \<Rightarrow> Device list \<Rightarrow> (string \<times> migResource) list
     \<Rightarrow> error + (string \<times> migResource) list" where
  "resources_loop rn [] resources = Inr resources"
| "resources_loop rn (mig # migs) resources =
     (case getMigDeviceName mig of
        Inl err \<Rightarrow> Inl (ErrorfV ''unable to parse MIG device name: '' err)
      | Inr nm \<Rightarrow>
          resources_loop rn migs
            (AList.update nm
               (case map_of resources nm of
                  None \<Rightarrow> \<lparr>name = rn nm, device = Some mig, count = 1\<rparr>
                | Some r \<Rightarrow> r\<lparr>count := count r + 1\<rparr>)
               resources))"

subsection \<open>The device inventory of package mig\<close>

text \<open>
  Modelled from the spec: package \<^verbatim>\<open>mig\<close> (\<^verbatim>\<open>mig.NewDeviceInfo\<close> and the four methods of
  \<^verbatim>\<open>DeviceInfo\<close>) is not among the sources. Section 4.2 of the specification: every
  device's partitioning-enabled flag is read; the devices with the flag set are the enabled
  set, the others the disabled set; the partition list of every enabled device is read;
  "any empty" holds when one of these lists is empty; all partitions are collected in
  discovery order; any read that fails fails the inventory.
\<close>

fun collect :: "('a \<Rightarrow> error + 'b) \<Rightarrow> 'a list \<Rightarrow> error + 'b list" where
  "collect f [] = Inr []"
| "collect f (x # xs) =
     (case f x of
        Inl err \<Rightarrow> Inl err
      | Inr y \<Rightarrow> (case collect f xs of Inl err \<Rightarrow> Inl err | Inr ys \<Rightarrow> Inr (y # ys)))"

record DeviceInventory =
  enabledDevices :: "Device list"
  disabledDevices :: "Device list"
  anyEmpty :: bool
  allPartitions :: "Device list"

text \<open>
  Modelled from the spec: the inventory pass of section 4.2 over the device list (the code
  of package \<^verbatim>\<open>mig\<close> is not among the sources).
\<close>

definition spec_build :: "Device list \<Rightarrow> error + DeviceInventory" where
  "spec_build devices =
     (case collect IsMigEnabled devices of
        Inl err \<Rightarrow> Inl err
      | Inr flags \<Rightarrow>
          (let enabled = map fst (filter snd (zip devices flags));
               disabled = map fst (filter (\<lambda>p. \<not> snd p) (zip devices flags))
           in case collect GetMigDevices enabled of
                Inl err \<Rightarrow> Inl err
              | Inr partitions \<Rightarrow>
                  Inr \<lparr>enabledDevices = enabled, disabledDevices = disabled,
                       anyEmpty = list_ex (\<lambda>ps. ps = []) partitions,
                       allPartitions = concat partitions\<rparr>))"

text \<open>
  Modelled from the spec: the ordered list of device handles of section 6
  (\<^verbatim>\<open>deviceCount\<close>, then \<^verbatim>\<open>device(index)\<close> for each index; a failing call fails the list).
\<close>

definition spec_devices :: "Nvml \<Rightarrow> error + Device list" where
  "spec_devices nvmlLib =
     (case GetDeviceCount nvmlLib of
        Inl err \<Rightarrow> Inl err
      | Inr cnt \<Rightarrow> collect (NewDevice nvmlLib) [0..<cnt])"

text \<open>
  Modelled from the spec: \<^verbatim>\<open>mig.NewDeviceInfo\<close>, absent from the sources, as the inventory
  of section 4.2: its four methods return the four components of the inventory, or the
  error of the read that failed.
\<close>

definition spec_NewDeviceInfo :: "Nvml \<Rightarrow> DeviceInfo" where
  "spec_NewDeviceInfo nvmlLib =
     (case (case spec_devices nvmlLib of Inl err \<Rightarrow> Inl err | Inr devices \<Rightarrow> spec_build devices) of
        Inl err \<Rightarrow>
          \<lparr>GetDevicesWithMigEnabled = Inl err, AnyMigEnabledDeviceIsEmpty = Inl err,
           GetDevicesWithMigDisabled = Inl err, GetAllMigDevices = Inl err\<rparr>
      | Inr inventory \<Rightarrow>
          \<lparr>GetDevicesWithMigEnabled = Inr (enabledDevices inventory),
           AnyMigEnabledDeviceIsEmpty = Inr (anyEmpty inventory),
           GetDevicesWithMigDisabled = Inr (disabledDevices inventory),
           GetAllMigDevices = Inr (allPartitions inventory)\<rparr>)"

subsection \<open>Concrete nodes\<close>

text \<open>
  Sample values on which the theorems are run: a MIG device with given slice count and
  memory size, a GPU with a model name, its MIG mode and its MIG devices, and a node made of
  a list of GPUs.
\<close>

definition mig_device :: "32 word \<Rightarrow> 64 word \<Rightarrow> Device" where
  "mig_device g mb =
     Device (Inr ''MIG'') (Inr \<lparr>GpuInstanceSliceCount = g, MemorySizeMB = mb\<rparr>) (Inr False) (Inr [])"

definition gpu :: "string \<Rightarrow> bool \<Rightarrow> Device list \<Rightarrow> Device" where
  "gpu model enabled migs =
     Device (Inr model) (Inl (NvmlError ''not a MIG device'')) (Inr enabled) (Inr migs)"

definition node :: "Device list \<Rightarrow> Nvml" where
  "node devices =
     \<lparr>GetDeviceCount = Inr (length devices),
      NewDevice = (\<lambda>i. if i < length devices then Inr (devices ! i)
                        else Inl (NvmlError ''invalid index''))\<rparr>"

text \<open>
  A sample of the collaborators: the inventory of the previous subsection and simple label
  helpers (a label per resource name and suffix).
\<close>

definition sample_lm :: Collaborators where
  "sample_lm =
     \<lparr>NewDeviceInfo = spec_NewDeviceInfo,
      NewGPUResourceLabeler =
        (\<lambda>config dev cnt.
           case GetName dev of
             Inl err \<Rightarrow> Inl err
           | Inr model \<Rightarrow>
               Inr (LabelsOf [(''nvidia.com/gpu.product'', model),
                              (''nvidia.com/gpu.count'', Sprintf_d (nat cnt))])),
      NewMIGResourceLabeler =
        (\<lambda>rn config dev cnt. Inr (LabelsOf [(rn @ ''.count'', Sprintf_d (nat cnt))])),
      list_Labels =
        (\<lambda>labelers. Inr (concat (map (\<lambda>l. case l of LabelsOf ls \<Rightarrow> ls | _ \<Rightarrow> []) labelers))),
      productLabel =
        (\<lambda>rl parts.
           [(resourceName rl @ ''.product'',
             foldr (\<lambda>p acc. if acc = [] then p else p @ ''-'' @ acc) parts [])]),
      updateLabel =
        (\<lambda>rl labels k v. AList.update (resourceName rl @ ''.'' @ k) (Sprintf_d (nat v)) labels)\<rparr>"

definition a100 :: string where
  "a100 = ''A100''"

definition mig_3g20gb :: Device where
  "mig_3g20gb = mig_device 3 20096"

definition mig_1g5gb :: Device where
  "mig_1g5gb = mig_device 1 4864"

definition mig_2g10gb :: Device where
  "mig_2g10gb = mig_device 2 9856"

text \<open>The nodes of the examples.\<close>

definition node_3_4 :: Nvml where
  "node_3_4 =
     node [gpu a100 True [mig_3g20gb, mig_3g20gb, mig_3g20gb],
           gpu a100 True [mig_3g20gb, mig_3g20gb, mig_3g20gb, mig_3g20gb]]"


definition node_enabled_disabled :: Nvml where
  "node_enabled_disabled = node [gpu a100 True [mig_3g20gb], gpu a100 False []]"

definition node_two_flavors :: Nvml where
  "node_two_flavors = node [gpu a100 True [mig_3g20gb], gpu a100 True [mig_1g5gb]]"


section \<open>Properties\<close>

subsection \<open>Running the sample collaborators\<close>

lemma Sprintf_d_digits:
  "Sprintf_d 0 = ''0''" "Sprintf_d 1 = ''1''" "Sprintf_d 2 = ''2''" "Sprintf_d 3 = ''3''"
  "Sprintf_d 7 = ''7''" "Sprintf_d (Suc 0) = ''1''"
  by (simp_all add: Sprintf_d.simps)

lemma sample_lm_fields:
  "NewDeviceInfo sample_lm = spec_NewDeviceInfo"
  "NewGPUResourceLabeler sample_lm config dev cnt =
     (case GetName dev of
        Inl err \<Rightarrow> Inl err
      | Inr model \<Rightarrow>
          Inr (LabelsOf [(''nvidia.com/gpu.product'', model),
                         (''nvidia.com/gpu.count'', Sprintf_d (nat cnt))]))"
  "NewMIGResourceLabeler sample_lm rn config d cnt =
     Inr (LabelsOf [(rn @ ''.count'', Sprintf_d (nat cnt))])"
  "list_Labels sample_lm labelers =
     Inr (concat (map (\<lambda>l. case l of LabelsOf ls \<Rightarrow> ls | _ \<Rightarrow> []) labelers))"
  "productLabel sample_lm rl parts =
     [(resourceName rl @ ''.product'',
       foldr (\<lambda>p acc. if acc = [] then p else p @ ''-'' @ acc) parts [])]"
  "updateLabel sample_lm rl labels k v =
     AList.update (resourceName rl @ ''.'' @ k) (Sprintf_d (nat v)) labels"
  by (simp_all add: sample_lm_def)

subsection \<open>The name of a MIG device\<close>

lemma ceil_div_1024: "(n + 1023) div 1024 = nat \<lceil>real n / 1024\<rceil>" for n :: nat
proof -
  have "\<lceil>real n / 1024\<rceil> = int ((n + 1023) div 1024)"
  proof (rule ceiling_unique)
    have b: "n + 1023 < 1024 * ((n + 1023) div 1024) + 1024"
      using mod_less_divisor [of 1024 "n + 1023"] div_mult_mod_eq [of "n + 1023" 1024] by linarith
    from b have "1024 * ((n + 1023) div 1024) < n + 1024" by linarith
    then have "real (1024 * ((n + 1023) div 1024)) < real (n + 1024)" using of_nat_less_iff by blast
    then show "of_int (int ((n + 1023) div 1024)) - 1 < real n / 1024" by simp
    have "n \<le> 1024 * ((n + 1023) div 1024)" by linarith
    then have "real n \<le> real (1024 * ((n + 1023) div 1024))" using of_nat_le_iff by blast
    then show "real n / 1024 \<le> of_int (int ((n + 1023) div 1024))" by simp
  qed
  then show ?thesis by simp
qed

lemma unat_gb:
  fixes m :: "64 word"
  assumes "unat m + 1023 < 2 ^ 64"
  shows "unat ((m + 1024 - 1) div 1024) = (unat m + 1023) div 1024"
proof -
  have e: "m + 1024 - 1 = m + 1023" by simp
  have "unat (m + 1023) = unat m + 1023"
    using assms by (simp add: unat_add_lem [THEN iffD1])
  then show ?thesis
    by (simp add: e unat_div)
qed

lemma getMigDeviceName_in_range:
  assumes a: "GetAttributes mig = Inr attr" and b: "unat (MemorySizeMB attr) + 1023 < 2 ^ 64"
  shows "getMigDeviceName mig =
     Inr (Sprintf_d (unat (GpuInstanceSliceCount attr)) @ ''g.'' @
          Sprintf_d (nat \<lceil>real (unat (MemorySizeMB attr)) / 1024\<rceil>) @ ''gb'')"
proof -
  have "unat ((MemorySizeMB attr + 1024 - 1) div 1024) = nat \<lceil>real (unat (MemorySizeMB attr)) / 1024\<rceil>"
    using unat_gb [OF b] ceil_div_1024 [of "unat (MemorySizeMB attr)"] by (simp only:)
  then show ?thesis
    unfolding getMigDeviceName_def a Let_def by (simp only: sum.case)
qed

lemma getMigDeviceName_samples:
  "getMigDeviceName (mig_device 3 20096) = Inr ''3g.20gb''"
  "getMigDeviceName (mig_device 1 1024) = Inr ''1g.1gb''"
  "getMigDeviceName (mig_device 1 1025) = Inr ''1g.2gb''"
  "getMigDeviceName (mig_device 1 4864) = Inr ''1g.5gb''"
  "getMigDeviceName (mig_device 2 9856) = Inr ''2g.10gb''"
  by (simp_all add: getMigDeviceName_def mig_device_def unat_div Sprintf_d.simps)

text \<open>
  Claim C2, as stated: for every slice count \<open>s\<close> and every memory size \<open>m\<close>, both
  positive, the name is \<open>s\<close>, \<^verbatim>\<open>g.\<close>, the ceiling of \<open>m / 1024\<close>, \<^verbatim>\<open>gb\<close>. The sum
  \<^verbatim>\<open>MemorySizeMB + 1024 - 1\<close> is computed in 64 bits and wraps around: for the memory size
  \<open>2 ^ 64 - 1\<close> and slice count 3 the code returns \<^verbatim>\<open>3g.0gb\<close>, while the ceiling of
  \<open>m / 1024\<close> is 18014398509481984.
\<close>

theorem getMigDeviceName_wraps_counterexample:
  "getMigDeviceName (mig_device 3 18446744073709551615) = Inr ''3g.0gb'' \<and>
   getMigDeviceName (mig_device 3 18446744073709551615) \<noteq>
     Inr (Sprintf_d 3 @ ''g.'' @ Sprintf_d ((unat (18446744073709551615 :: 64 word) + 1023) div 1024) @ ''gb'') \<and>
   0 < unat (18446744073709551615 :: 64 word) \<and>
   (unat (18446744073709551615 :: 64 word) + 1023) div 1024 = 18014398509481984"
  by (simp add: getMigDeviceName_def mig_device_def unat_div Sprintf_d.simps)

text \<open>
  Claim C2, amended: for every MIG device whose attributes can be read, with slice count
  \<open>s\<close> and memory size \<open>m\<close> such that \<open>m + 1023 < 2 ^ 64\<close> (the 64-bit sum does not wrap),
  the name is the decimal \<open>s\<close>, then \<^verbatim>\<open>g.\<close>, then the decimal ceiling of \<open>m / 1024\<close>, which
  is \<open>(m + 1023) div 1024\<close>, then \<^verbatim>\<open>gb\<close>. The memory sizes 1024, 1025 and 20096 give 1, 2
  and 20, and slice count 3 with 20096 MB gives \<^verbatim>\<open>3g.20gb\<close>.
\<close>

theorem getMigDeviceName_ceiling:
  "(GetAttributes mig = Inr attr \<and> unat (MemorySizeMB attr) + 1023 < 2 ^ 64 \<longrightarrow>
      getMigDeviceName mig =
        Inr (Sprintf_d (unat (GpuInstanceSliceCount attr)) @ ''g.'' @
             Sprintf_d (nat \<lceil>real (unat (MemorySizeMB attr)) / 1024\<rceil>) @ ''gb'') \<and>
      nat \<lceil>real (unat (MemorySizeMB attr)) / 1024\<rceil> = (unat (MemorySizeMB attr) + 1023) div 1024) \<and>
   getMigDeviceName (mig_device 1 1024) = Inr ''1g.1gb'' \<and>
   getMigDeviceName (mig_device 1 1025) = Inr ''1g.2gb'' \<and>
   getMigDeviceName (mig_device 3 20096) = Inr ''3g.20gb''"
proof -
  have "getMigDeviceName mig =
        Inr (Sprintf_d (unat (GpuInstanceSliceCount attr)) @ ''g.'' @
             Sprintf_d (nat \<lceil>real (unat (MemorySizeMB attr)) / 1024\<rceil>) @ ''gb'')"
    if "GetAttributes mig = Inr attr" and "unat (MemorySizeMB attr) + 1023 < 2 ^ 64"
    using that by (rule getMigDeviceName_in_range)
  moreover have "nat \<lceil>real (unat (MemorySizeMB attr)) / 1024\<rceil> = (unat (MemorySizeMB attr) + 1023) div 1024"
    by (rule ceil_div_1024 [symmetric])
  ultimately show ?thesis
    using getMigDeviceName_samples(1-3) by blast
qed

theorem getMigDeviceName_ceiling_witness:
  "GetAttributes mig_2g10gb = Inr \<lparr>GpuInstanceSliceCount = 2, MemorySizeMB = 9856\<rparr> \<and>
   unat (9856 :: 64 word) + 1023 < 2 ^ 64 \<and>
   getMigDeviceName mig_2g10gb = Inr ''2g.10gb'' \<and>
   nat \<lceil>real (unat (9856 :: 64 word)) / 1024\<rceil> = 10"
proof -
  have a: "GetAttributes mig_2g10gb = Inr \<lparr>GpuInstanceSliceCount = 2, MemorySizeMB = 9856\<rparr>"
    by (simp add: mig_2g10gb_def mig_device_def)
  have b: "unat (MemorySizeMB \<lparr>GpuInstanceSliceCount = 2, MemorySizeMB = 9856\<rparr>) + 1023 < 2 ^ 64"
    by simp
  from getMigDeviceName_ceiling [of mig_2g10gb "\<lparr>GpuInstanceSliceCount = 2, MemorySizeMB = 9856\<rparr>"] a b
  have "getMigDeviceName mig_2g10gb =
          Inr (Sprintf_d (unat (2 :: 32 word)) @ ''g.'' @
               Sprintf_d (nat \<lceil>real (unat (9856 :: 64 word)) / 1024\<rceil>) @ ''gb'')"
    and c: "nat \<lceil>real (unat (9856 :: 64 word)) / 1024\<rceil> = (unat (9856 :: 64 word) + 1023) div 1024"
    by simp_all
  moreover from c have "nat \<lceil>real (unat (9856 :: 64 word)) / 1024\<rceil> = 10" by simp
  ultimately show ?thesis using a by (simp add: Sprintf_d.simps)
qed

subsection \<open>NewResourceLabeler on a node without GPUs\<close>

text \<open>
  Claim C9: when the device count is zero, \<open>NewResourceLabeler\<close> returns the empty labeler
  and no error (and prints nothing), whatever the configuration, an unrecognised strategy
  included: the unknown-strategy error is not reached.
\<close>

theorem NewResourceLabeler_no_devices:
  "GetDeviceCount nvmlLib = Inr 0 \<Longrightarrow> NewResourceLabeler lm nvmlLib config = ([], Inr empty)"
  by (simp add: NewResourceLabeler_def)

theorem NewResourceLabeler_no_devices_witness:
  "GetDeviceCount (node []) = Inr 0 \<and>
   NewResourceLabeler sample_lm (node []) \<lparr>MigStrategy = ''bogus''\<rparr> = ([], Inr empty)"
  using NewResourceLabeler_no_devices [of "node []" sample_lm "\<lparr>MigStrategy = ''bogus''\<rparr>"]
  by (simp add: node_def)

subsection \<open>An unrecognised strategy\<close>

text \<open>
  Claim C3, as stated: every configuration whose strategy is none of \<^verbatim>\<open>none\<close>, \<^verbatim>\<open>single\<close>,
  \<^verbatim>\<open>mixed\<close> makes the pass fail, before any device is read. On a node that reports zero
  devices the strategy \<^verbatim>\<open>bogus\<close> gives the empty labeler and no error: the device count is
  read first and decides.
\<close>

theorem unknown_strategy_counterexample:
  "MigStrategy \<lparr>MigStrategy = ''bogus''\<rparr> \<notin> {''none'', ''single'', ''mixed''} \<and>
   NewResourceLabeler sample_lm (node []) \<lparr>MigStrategy = ''bogus''\<rparr> = ([], Inr empty)"
  by (simp add: NewResourceLabeler_def node_def)

text \<open>
  Claim C3, amended: for every configuration whose strategy is none of \<^verbatim>\<open>none\<close>,
  \<^verbatim>\<open>single\<close>, \<^verbatim>\<open>mixed\<close>, \<open>newMigLabeler\<close> fails with the unknown-strategy error whatever
  the devices are (it reads none, and substitutes no other strategy), and
  \<open>NewResourceLabeler\<close> reports that error exactly when the device count was read and is
  not zero and the full-GPU labeler was built; a failing device count or full-GPU labeler
  is reported instead, and a device count of zero gives the empty labeler and no error.
\<close>

theorem unknown_strategy:
  assumes "MigStrategy config \<notin> {''none'', ''single'', ''mixed''}"
  shows "newMigLabeler lm nvmlLib config =
      ([], Inl (Errorf (''unknown strategy: '' @ MigStrategy config))) \<and>
    NewResourceLabeler lm nvmlLib config =
      (case GetDeviceCount nvmlLib of
         Inl err \<Rightarrow> ([], Inl (ErrorfV ''error getting device count: '' err))
       | Inr cnt \<Rightarrow>
           if cnt = 0 then ([], Inr empty)
           else
             (case newGPULabelers lm nvmlLib config of
                Inl err \<Rightarrow> ([], Inl (ErrorfV ''failed to construct GPU labeler: '' err))
              | Inr fullGPULabeler \<Rightarrow>
                  ([], Inl (ErrorfV ''failed to construct MIG resource labeler: ''
                              (Errorf (''unknown strategy: '' @ MigStrategy config))))))"
proof -
  have a: "newMigLabeler lm nvmlLib config =
      ([], Inl (Errorf (''unknown strategy: '' @ MigStrategy config)))"
    using assms
    by (simp add: newMigLabeler_def MigStrategyNone_def MigStrategySingle_def MigStrategyMixed_def)
  have b: "MigStrategy config \<noteq> spec_MigStrategyNone"
    using assms by (simp add: spec_MigStrategyNone_def)
  show ?thesis
    unfolding NewResourceLabeler_def a using a b
    by (simp split: sum.splits)
qed

theorem unknown_strategy_witness:
  "MigStrategy \<lparr>MigStrategy = ''bogus''\<rparr> \<notin> {''none'', ''single'', ''mixed''} \<and>
   newMigLabeler sample_lm (node [gpu a100 False []]) \<lparr>MigStrategy = ''bogus''\<rparr> =
     ([], Inl (Errorf ''unknown strategy: bogus'')) \<and>
   NewResourceLabeler sample_lm (node [gpu a100 False []]) \<lparr>MigStrategy = ''bogus''\<rparr> =
     ([], Inl (ErrorfV ''failed to construct MIG resource labeler: ''
                 (Errorf ''unknown strategy: bogus'')))"
proof -
  have h: "MigStrategy \<lparr>MigStrategy = ''bogus''\<rparr> \<notin> {''none'', ''single'', ''mixed''}" by simp
  show ?thesis
    using unknown_strategy [OF h, of sample_lm "node [gpu a100 False []]"]
    by (simp add: node_def newGPULabelers_def newGPULabelers_loop_def sample_lm_fields gpu_def)
qed

subsection \<open>The full-GPU labeler reads the first device only\<close>



subsection \<open>Strategy single without MIG-enabled devices\<close>

lemmas spec_inventory_defs =
  spec_NewDeviceInfo_def spec_devices_def spec_build_def node_def gpu_def

lemma newMIGDeviceLabelers_not_Labels: "newMIGDeviceLabelers lm rs config \<noteq> Inr (LabelsOf ls)"
  by (simp add: newMIGDeviceLabelers_def split: sum.splits)

lemma single_Labels_or_not:
  "(\<exists>r \<in> {''at least one MIG device is enabled but empty'',
               ''devices with MIG enabled and disable detected'',
               ''more than one MIG device type present on node''}.
         newMigStrategySingleLabeler lm nvml config = newInvalidMigStrategyLabeler lm nvml r) \<or>
   (\<forall>ls. snd (newMigStrategySingleLabeler lm nvml config) \<noteq> Inr (LabelsOf ls))"
  unfolding newMigStrategySingleLabeler_def Let_def
  by (simp add: newMIGDeviceLabelers_not_Labels split: sum.split)

text \<open>
  Claim C4: under strategy \<^verbatim>\<open>single\<close>, when the list of MIG-enabled devices is empty,
  \<open>newMigStrategySingleLabeler\<close> returns the empty labeler, no error and prints no warning;
  the labeler that \<open>newMigLabeler\<close> merges with the strategy label is then the same
  \<open>empty\<close> as under strategy \<^verbatim>\<open>none\<close>.
\<close>

theorem single_no_enabled_devices:
  assumes "GetDevicesWithMigEnabled (NewDeviceInfo lm nvmlLib) = Inr []"
  shows "newMigStrategySingleLabeler lm nvmlLib config = ([], Inr empty) \<and>
    (MigStrategy config = ''single'' \<longrightarrow>
       newMigLabeler lm nvmlLib config = ([], Inr (Merge [migStrategyLabeler ''single'', empty]))) \<and>
    newMigLabeler lm nvmlLib (config\<lparr>MigStrategy := ''none''\<rparr>) =
       ([], Inr (Merge [migStrategyLabeler ''none'', empty]))"
  using assms
  by (simp add: newMigStrategySingleLabeler_def newMigLabeler_def
      MigStrategyNone_def MigStrategySingle_def)

theorem single_no_enabled_devices_witness:
  "GetDevicesWithMigEnabled (NewDeviceInfo sample_lm (node [gpu a100 False [], gpu a100 False []])) = Inr [] \<and>
   newMigStrategySingleLabeler sample_lm (node [gpu a100 False [], gpu a100 False []])
     \<lparr>MigStrategy = ''single''\<rparr> = ([], Inr empty) \<and>
   newMigLabeler sample_lm (node [gpu a100 False [], gpu a100 False []]) \<lparr>MigStrategy = ''single''\<rparr> =
     ([], Inr (Merge [migStrategyLabeler ''single'', empty])) \<and>
   newMigLabeler sample_lm (node [gpu a100 False [], gpu a100 False []]) \<lparr>MigStrategy = ''none''\<rparr> =
     ([], Inr (Merge [migStrategyLabeler ''none'', empty]))"
proof -
  have a: "GetDevicesWithMigEnabled (NewDeviceInfo sample_lm (node [gpu a100 False [], gpu a100 False []])) = Inr []"
    by (simp add: sample_lm_fields spec_inventory_defs)
  show ?thesis
    using single_no_enabled_devices [OF a, of "\<lparr>MigStrategy = ''single''\<rparr>"] a
    by simp
qed

subsection \<open>The labels of an invalid configuration\<close>

text \<open>
  Claim C5: \<open>newInvalidMigStrategyLabeler\<close> prints exactly one message, the warning that
  carries the reason; read the device at index 0 and its model name and it returns the
  product label of resource \<^verbatim>\<open>nvidia.com/gpu\<close> built from the model, \<^verbatim>\<open>MIG\<close> and
  \<^verbatim>\<open>INVALID\<close>, with \<^verbatim>\<open>count\<close> and then \<^verbatim>\<open>memory\<close> set to 0; it fails when the model
  name, or the device, cannot be read. Whenever \<open>newMigStrategySingleLabeler\<close> returns a
  label map, it is this result for one of the three reasons.
\<close>

theorem invalid_labeler:
  "fst (newInvalidMigStrategyLabeler lm nvml reason) =
     [''WARNING: Invalid configuration detected for mig-strategy=single: '' @ reason] \<and>
   (\<forall>dev model. NewDevice nvml 0 = Inr dev \<and> GetName dev = Inr model \<longrightarrow>
      snd (newInvalidMigStrategyLabeler lm nvml reason) =
        Inr (LabelsOf
          (updateLabel lm \<lparr>resourceName = ''nvidia.com/gpu''\<rparr>
             (updateLabel lm \<lparr>resourceName = ''nvidia.com/gpu''\<rparr>
                (productLabel lm \<lparr>resourceName = ''nvidia.com/gpu''\<rparr> [model, ''MIG'', ''INVALID''])
                ''count'' 0)
             ''memory'' 0))) \<and>
   (\<forall>dev err. NewDevice nvml 0 = Inr dev \<and> GetName dev = Inl err \<longrightarrow>
      snd (newInvalidMigStrategyLabeler lm nvml reason) =
        Inl (ErrorfV ''failed to get device model: '' err)) \<and>
   (\<forall>err. NewDevice nvml 0 = Inl err \<longrightarrow>
      snd (newInvalidMigStrategyLabeler lm nvml reason) =
        Inl (ErrorfV ''error getting device: '' err)) \<and>
   (\<forall>ls. snd (newMigStrategySingleLabeler lm nvml config) = Inr (LabelsOf ls) \<longrightarrow>
      (\<exists>r \<in> {''at least one MIG device is enabled but empty'',
               ''devices with MIG enabled and disable detected'',
               ''more than one MIG device type present on node''}.
         newMigStrategySingleLabeler lm nvml config = newInvalidMigStrategyLabeler lm nvml r))"
proof -
  have 1: "fst (newInvalidMigStrategyLabeler lm nvml reason) =
     [''WARNING: Invalid configuration detected for mig-strategy=single: '' @ reason]"
    by (simp add: newInvalidMigStrategyLabeler_def)
  have 2: "snd (newInvalidMigStrategyLabeler lm nvml reason) =
        Inr (LabelsOf
          (updateLabel lm \<lparr>resourceName = ''nvidia.com/gpu''\<rparr>
             (updateLabel lm \<lparr>resourceName = ''nvidia.com/gpu''\<rparr>
                (productLabel lm \<lparr>resourceName = ''nvidia.com/gpu''\<rparr> [model, ''MIG'', ''INVALID''])
                ''count'' 0)
             ''memory'' 0))"
    if "NewDevice nvml 0 = Inr dev" "GetName dev = Inr model" for dev model
    using that by (simp add: newInvalidMigStrategyLabeler_def Let_def)
  have 3: "snd (newInvalidMigStrategyLabeler lm nvml reason) =
        Inl (ErrorfV ''failed to get device model: '' err)"
    if "NewDevice nvml 0 = Inr dev" "GetName dev = Inl err" for dev err
    using that by (simp add: newInvalidMigStrategyLabeler_def)
  have 4: "snd (newInvalidMigStrategyLabeler lm nvml reason) =
        Inl (ErrorfV ''error getting device: '' err)"
    if "NewDevice nvml 0 = Inl err" for err
    using that by (simp add: newInvalidMigStrategyLabeler_def)
  from 1 2 3 4 single_Labels_or_not [of lm nvml config] show ?thesis by blast
qed

theorem invalid_labeler_witness:
  "NewDevice (node [gpu a100 True []]) 0 = Inr (gpu a100 True []) \<and>
   GetName (gpu a100 True []) = Inr ''A100'' \<and>
   newMigStrategySingleLabeler sample_lm (node [gpu a100 True []]) \<lparr>MigStrategy = ''single''\<rparr> =
     ([''WARNING: Invalid configuration detected for mig-strategy=single: at least one MIG device is enabled but empty''],
      Inr (LabelsOf [(''nvidia.com/gpu.product'', ''A100-MIG-INVALID''),
                     (''nvidia.com/gpu.count'', ''0''), (''nvidia.com/gpu.memory'', ''0'')]))"
proof -
  let ?N = "node [gpu a100 True []]"
  let ?r = "''at least one MIG device is enabled but empty''"
  have a: "NewDevice ?N 0 = Inr (gpu a100 True [])" by (simp add: node_def)
  have b: "GetName (gpu a100 True []) = Inr ''A100''" by (simp add: gpu_def a100_def)
  have c: "newMigStrategySingleLabeler sample_lm ?N \<lparr>MigStrategy = ''single''\<rparr> =
      newInvalidMigStrategyLabeler sample_lm ?N ?r"
    by (simp add: newMigStrategySingleLabeler_def sample_lm_fields(1) spec_inventory_defs)
  note t = invalid_labeler [of sample_lm ?N ?r "\<lparr>MigStrategy = ''single''\<rparr>"]
  from t have f: "fst (newInvalidMigStrategyLabeler sample_lm ?N ?r) =
     [''WARNING: Invalid configuration detected for mig-strategy=single: '' @ ?r]" by (rule conjunct1)
  from t a b have "snd (newInvalidMigStrategyLabeler sample_lm ?N ?r) =
        Inr (LabelsOf
          (updateLabel sample_lm \<lparr>resourceName = ''nvidia.com/gpu''\<rparr>
             (updateLabel sample_lm \<lparr>resourceName = ''nvidia.com/gpu''\<rparr>
                (productLabel sample_lm \<lparr>resourceName = ''nvidia.com/gpu''\<rparr> [''A100'', ''MIG'', ''INVALID''])
                ''count'' 0)
             ''memory'' 0))" by blast
  then have s: "snd (newInvalidMigStrategyLabeler sample_lm ?N ?r) =
      Inr (LabelsOf [(''nvidia.com/gpu.product'', ''A100-MIG-INVALID''),
                     (''nvidia.com/gpu.count'', ''0''), (''nvidia.com/gpu.memory'', ''0'')])"
    by (simp add: sample_lm_fields Sprintf_d_digits)
  have "newInvalidMigStrategyLabeler sample_lm ?N ?r =
     ([''WARNING: Invalid configuration detected for mig-strategy=single: at least one MIG device is enabled but empty''],
      Inr (LabelsOf [(''nvidia.com/gpu.product'', ''A100-MIG-INVALID''),
                     (''nvidia.com/gpu.count'', ''0''), (''nvidia.com/gpu.memory'', ''0'')]))"
    using f s by (simp add: prod_eq_iff)
  with a b c show ?thesis by simp
qed

subsection \<open>The aggregation loops\<close>

lemma single_resources_loop:
  "single_resources migs rs = resources_loop (\<lambda>nm. ''nvidia.com/gpu'') migs rs"
  by (induction migs arbitrary: rs)
     (auto simp: zero_migResource_def split: sum.splits option.splits)

lemma mixed_resources_loop:
  "mixed_resources migs rs = resources_loop (\<lambda>nm. ''nvidia.com/mig-'' @ nm) migs rs"
  by (induction migs arbitrary: rs)
     (auto simp: zero_migResource_def split: sum.splits option.splits)

lemma resources_loop_map_of:
  "map getMigDeviceName migs = map Inr ns \<Longrightarrow>
   \<exists>rs'. resources_loop rn migs rs = Inr rs' \<and>
     (distinct (map fst rs) \<longrightarrow> distinct (map fst rs')) \<and>
     (\<forall>f. map_of rs' f =
        (case map_of rs f of
           Some r \<Rightarrow> Some (r\<lparr>count := count r + int (count_list ns f)\<rparr>)
         | None \<Rightarrow>
             if f \<in> set ns
             then Some \<lparr>name = rn f, device = find (\<lambda>m. getMigDeviceName m = Inr f) migs,
                        count = int (count_list ns f)\<rparr>
             else None))"
proof (induction migs arbitrary: rs ns)
  case Nil
  then show ?case by (auto split: option.splits)
next
  case (Cons m migs)
  then obtain n ns' where ns: "ns = n # ns'" and m: "getMigDeviceName m = Inr n"
    and rest: "map getMigDeviceName migs = map Inr ns'"
    by (cases ns) auto
  let ?r = "case map_of rs n of None \<Rightarrow> \<lparr>name = rn n, device = Some m, count = 1\<rparr>
            | Some r \<Rightarrow> r\<lparr>count := count r + 1\<rparr>"
  from Cons.IH [OF rest, of "AList.update n ?r rs"]
  obtain rs' where 1: "resources_loop rn migs (AList.update n ?r rs) = Inr rs'"
    and 2: "distinct (map fst (AList.update n ?r rs)) \<longrightarrow> distinct (map fst rs')"
    and 3: "\<And>f. map_of rs' f =
        (case map_of (AList.update n ?r rs) f of
           Some r \<Rightarrow> Some (r\<lparr>count := count r + int (count_list ns' f)\<rparr>)
         | None \<Rightarrow>
             if f \<in> set ns'
             then Some \<lparr>name = rn f, device = find (\<lambda>m. getMigDeviceName m = Inr f) migs,
                        count = int (count_list ns' f)\<rparr>
             else None)"
    by blast
  have a: "resources_loop rn (m # migs) rs = Inr rs'" using 1 m by simp
  have b: "distinct (map fst rs) \<longrightarrow> distinct (map fst rs')"
    using 2 by (simp add: distinct_update)
  have c: "map_of rs' f =
        (case map_of rs f of
           Some r \<Rightarrow> Some (r\<lparr>count := count r + int (count_list ns f)\<rparr>)
         | None \<Rightarrow>
             if f \<in> set ns
             then Some \<lparr>name = rn f, device = find (\<lambda>m. getMigDeviceName m = Inr f) (m # migs),
                        count = int (count_list ns f)\<rparr>
             else None)" for f
  proof (cases "f = n")
    case True
    then show ?thesis
      unfolding 3 [of f] ns by (simp add: update_conv' m split: option.splits)
  next
    case False
    then show ?thesis
      unfolding 3 [of f] ns by (simp add: update_conv' m split: option.splits)
  qed
  from a b c show ?case by blast
qed

lemma count_list_names:
  "map getMigDeviceName migs = map Inr ns \<Longrightarrow>
   count_list ns f = length (filter (\<lambda>m. getMigDeviceName m = Inr f) migs)"
proof (induction migs arbitrary: ns)
  case Nil
  then show ?case by simp
next
  case (Cons m migs)
  then obtain n ns' where "ns = n # ns'" "getMigDeviceName m = Inr n"
    "map getMigDeviceName migs = map Inr ns'"
    by (cases ns) auto
  with Cons.IH [of ns'] show ?case by simp
qed

lemma resources_loop_empty:
  assumes "map getMigDeviceName migs = map Inr ns"
  shows "\<exists>rs. resources_loop rn migs [] = Inr rs \<and> distinct (map fst rs) \<and>
     fst ` set rs = set ns \<and> length rs = card (set ns) \<and>
     (\<forall>f r. (f, r) \<in> set rs \<longrightarrow>
        r = \<lparr>name = rn f, device = find (\<lambda>m. getMigDeviceName m = Inr f) migs,
             count = int (length (filter (\<lambda>m. getMigDeviceName m = Inr f) migs))\<rparr>)"
proof -
  from resources_loop_map_of [OF assms, of rn "[]"]
  obtain rs where 1: "resources_loop rn migs [] = Inr rs"
    and 2: "distinct (map fst rs)"
    and 3: "\<And>f. map_of rs f =
       (if f \<in> set ns
        then Some \<lparr>name = rn f, device = find (\<lambda>m. getMigDeviceName m = Inr f) migs,
                   count = int (count_list ns f)\<rparr>
        else None)"
    by auto
  have "dom (map_of rs) = set ns"
    using 3 by (auto simp: dom_def)
  then have 4: "fst ` set rs = set ns"
    by (simp add: dom_map_of_conv_image_fst)
  have "length rs = length (map fst rs)" by simp
  also have "\<dots> = card (set (map fst rs))" using 2 by (simp only: distinct_card)
  also have "\<dots> = card (set ns)" using 4 by simp
  finally have 5: "length rs = card (set ns)" .
  have 6: "r = \<lparr>name = rn f, device = find (\<lambda>m. getMigDeviceName m = Inr f) migs,
             count = int (length (filter (\<lambda>m. getMigDeviceName m = Inr f) migs))\<rparr>"
    if "(f, r) \<in> set rs" for f r
  proof -
    from that 2 have "map_of rs f = Some r" by simp
    with 3 [of f] show ?thesis
      by (simp add: count_list_names [OF assms] split: if_splits)
  qed
  from 1 2 4 5 6 show ?thesis by blast
qed

lemma node_3_4_inventory:
  "NewDeviceInfo sample_lm node_3_4 =
     \<lparr>GetDevicesWithMigEnabled =
        Inr [gpu a100 True [mig_3g20gb, mig_3g20gb, mig_3g20gb],
             gpu a100 True [mig_3g20gb, mig_3g20gb, mig_3g20gb, mig_3g20gb]],
      AnyMigEnabledDeviceIsEmpty = Inr False,
      GetDevicesWithMigDisabled = Inr [],
      GetAllMigDevices =
        Inr [mig_3g20gb, mig_3g20gb, mig_3g20gb, mig_3g20gb, mig_3g20gb, mig_3g20gb, mig_3g20gb]\<rparr>"
  by (simp add: sample_lm_fields(1) node_3_4_def spec_inventory_defs)

lemma names_all_same:
  assumes "map getMigDeviceName migs = map Inr ns" and "set ns = {f}"
  shows "\<forall>m \<in> set migs. getMigDeviceName m = Inr f"
proof
  fix m assume "m \<in> set migs"
  then have "getMigDeviceName m \<in> set (map getMigDeviceName migs)" by simp
  then have "getMigDeviceName m \<in> set (map Inr ns)" by (simp only: assms(1))
  then have "getMigDeviceName m \<in> Inr ` {f}" by (simp only: set_map assms(2))
  then show "getMigDeviceName m = Inr f" by simp
qed

lemma resources_loop_one_flavor:
  assumes n: "map getMigDeviceName migs = map Inr ns" and f: "set ns = {f}"
  shows "resources_loop rn migs [] =
     Inr [(f, \<lparr>name = rn f, device = Some (hd migs), count = int (length migs)\<rparr>)]"
proof -
  from resources_loop_empty [OF n, of rn]
  obtain rs where 1: "resources_loop rn migs [] = Inr rs"
    and 4: "fst ` set rs = set ns" and 5: "length rs = card (set ns)"
    and 6: "\<And>k r. (k, r) \<in> set rs \<Longrightarrow>
        r = \<lparr>name = rn k, device = find (\<lambda>m. getMigDeviceName m = Inr k) migs,
             count = int (length (filter (\<lambda>m. getMigDeviceName m = Inr k) migs))\<rparr>"
    by blast
  from 5 f have "length rs = 1" by simp
  then obtain p where "rs = [p]" by (cases rs) simp_all
  then obtain k r where rs: "rs = [(k, r)]" by (cases p) simp
  with 4 f have k: "k = f" by simp
  have all: "\<forall>m \<in> set migs. getMigDeviceName m = Inr f"
    by (rule names_all_same [OF n f])
  have ne: "migs \<noteq> []"
  proof
    assume "migs = []"
    with n have "ns = []" by simp
    with f show False by simp
  qed
  then obtain m ms where migs: "migs = m # ms" by (cases migs) simp_all
  have fl: "filter (\<lambda>m. getMigDeviceName m = Inr f) migs = migs"
    using all by (rule filter_True)
  have "m \<in> set migs" by (simp add: migs)
  with all have hm: "getMigDeviceName m = Inr f" by (rule bspec)
  have fi: "find (\<lambda>m. getMigDeviceName m = Inr f) migs = Some (hd migs)"
    by (simp add: migs hm)
  from 6 [of k r] rs k have "r = \<lparr>name = rn f, device = Some (hd migs), count = int (length migs)\<rparr>"
    by (simp add: fl fi)
  with 1 rs k show ?thesis by simp
qed

text \<open>
  Claim C7: for every list of MIG devices whose names can be read, after the aggregation loop
  of either strategy the map holds one record per name that occurs, and the count of each
  record is the number of MIG devices whose name is the record's key; the records of the
  single strategy carry the resource name \<^verbatim>\<open>nvidia.com/gpu\<close>, those of the mixed strategy
  \<^verbatim>\<open>nvidia.com/mig-\<close> followed by the key. When all the devices have one name, the map of the
  single strategy is the one record of that name with the number of devices as count, and
  on a node where every device is MIG-enabled and none is empty this record is what the
  single labeler is built from (7 for devices with 3 and 4 MIG devices).
\<close>

theorem aggregation_counts:
  assumes "map getMigDeviceName migs = map Inr ns"
  shows "(\<exists>rs. single_resources migs [] = Inr rs \<and> distinct (map fst rs) \<and> fst ` set rs = set ns \<and>
            (\<forall>f r. (f, r) \<in> set rs \<longrightarrow>
               name r = ''nvidia.com/gpu'' \<and>
               count r = int (length (filter (\<lambda>m. getMigDeviceName m = Inr f) migs)))) \<and>
         (\<exists>rs. mixed_resources migs [] = Inr rs \<and> distinct (map fst rs) \<and> fst ` set rs = set ns \<and>
            (\<forall>f r. (f, r) \<in> set rs \<longrightarrow>
               name r = ''nvidia.com/mig-'' @ f \<and>
               count r = int (length (filter (\<lambda>m. getMigDeviceName m = Inr f) migs)))) \<and>
         (\<forall>f. set ns = {f} \<longrightarrow>
            single_resources migs [] =
              Inr [(f, \<lparr>name = ''nvidia.com/gpu'', device = Some (hd migs), count = int (length migs)\<rparr>)] \<and>
            (GetDevicesWithMigEnabled (NewDeviceInfo lm nvmlLib) = Inr en \<and> en \<noteq> [] \<and>
             AnyMigEnabledDeviceIsEmpty (NewDeviceInfo lm nvmlLib) = Inr False \<and>
             GetDevicesWithMigDisabled (NewDeviceInfo lm nvmlLib) = Inr [] \<and>
             GetAllMigDevices (NewDeviceInfo lm nvmlLib) = Inr migs \<longrightarrow>
             newMigStrategySingleLabeler lm nvmlLib config =
               ([], newMIGDeviceLabelers lm
                      [(f, \<lparr>name = ''nvidia.com/gpu'', device = Some (hd migs),
                            count = int (length migs)\<rparr>)] config)))"
proof -
  from resources_loop_empty [OF assms, of "\<lambda>nm. ''nvidia.com/gpu''"]
  obtain rs where a: "resources_loop (\<lambda>nm. ''nvidia.com/gpu'') migs [] = Inr rs"
    and b: "distinct (map fst rs)" and c: "fst ` set rs = set ns"
    and d: "\<And>f r. (f, r) \<in> set rs \<Longrightarrow>
        r = \<lparr>name = ''nvidia.com/gpu'', device = find (\<lambda>m. getMigDeviceName m = Inr f) migs,
             count = int (length (filter (\<lambda>m. getMigDeviceName m = Inr f) migs))\<rparr>"
    by blast
  have "name r = ''nvidia.com/gpu'' \<and>
        count r = int (length (filter (\<lambda>m. getMigDeviceName m = Inr f) migs))"
    if "(f, r) \<in> set rs" for f r
    using d [OF that] by simp
  with a b c have 1: "\<exists>rs. single_resources migs [] = Inr rs \<and> distinct (map fst rs) \<and>
            fst ` set rs = set ns \<and>
            (\<forall>f r. (f, r) \<in> set rs \<longrightarrow>
               name r = ''nvidia.com/gpu'' \<and>
               count r = int (length (filter (\<lambda>m. getMigDeviceName m = Inr f) migs)))"
    unfolding single_resources_loop by blast
  from resources_loop_empty [OF assms, of "\<lambda>nm. ''nvidia.com/mig-'' @ nm"]
  obtain rs' where a': "resources_loop (\<lambda>nm. ''nvidia.com/mig-'' @ nm) migs [] = Inr rs'"
    and b': "distinct (map fst rs')" and c': "fst ` set rs' = set ns"
    and d': "\<And>f r. (f, r) \<in> set rs' \<Longrightarrow>
        r = \<lparr>name = ''nvidia.com/mig-'' @ f, device = find (\<lambda>m. getMigDeviceName m = Inr f) migs,
             count = int (length (filter (\<lambda>m. getMigDeviceName m = Inr f) migs))\<rparr>"
    by blast
  have "name r = ''nvidia.com/mig-'' @ f \<and>
        count r = int (length (filter (\<lambda>m. getMigDeviceName m = Inr f) migs))"
    if "(f, r) \<in> set rs'" for f r
    using d' [OF that] by simp
  with a' b' c' have 2: "\<exists>rs. mixed_resources migs [] = Inr rs \<and> distinct (map fst rs) \<and>
            fst ` set rs = set ns \<and>
            (\<forall>f r. (f, r) \<in> set rs \<longrightarrow>
               name r = ''nvidia.com/mig-'' @ f \<and>
               count r = int (length (filter (\<lambda>m. getMigDeviceName m = Inr f) migs)))"
    unfolding mixed_resources_loop by blast
  have 3: "single_resources migs [] =
      Inr [(f, \<lparr>name = ''nvidia.com/gpu'', device = Some (hd migs), count = int (length migs)\<rparr>)]"
    if "set ns = {f}" for f
    unfolding single_resources_loop by (rule resources_loop_one_flavor [OF assms that])
  show ?thesis
  proof (intro conjI allI impI)
    show "\<exists>rs. single_resources migs [] = Inr rs \<and> distinct (map fst rs) \<and>
            fst ` set rs = set ns \<and>
            (\<forall>f r. (f, r) \<in> set rs \<longrightarrow>
               name r = ''nvidia.com/gpu'' \<and>
               count r = int (length (filter (\<lambda>m. getMigDeviceName m = Inr f) migs)))"
      by (rule 1)
  next
    show "\<exists>rs. mixed_resources migs [] = Inr rs \<and> distinct (map fst rs) \<and>
            fst ` set rs = set ns \<and>
            (\<forall>f r. (f, r) \<in> set rs \<longrightarrow>
               name r = ''nvidia.com/mig-'' @ f \<and>
               count r = int (length (filter (\<lambda>m. getMigDeviceName m = Inr f) migs)))"
      by (rule 2)
  next
    fix f assume "set ns = {f}"
    then show "single_resources migs [] =
      Inr [(f, \<lparr>name = ''nvidia.com/gpu'', device = Some (hd migs), count = int (length migs)\<rparr>)]"
      by (rule 3)
  next
    fix f
    assume s: "set ns = {f}"
      and h: "GetDevicesWithMigEnabled (NewDeviceInfo lm nvmlLib) = Inr en \<and> en \<noteq> [] \<and>
             AnyMigEnabledDeviceIsEmpty (NewDeviceInfo lm nvmlLib) = Inr False \<and>
             GetDevicesWithMigDisabled (NewDeviceInfo lm nvmlLib) = Inr [] \<and>
             GetAllMigDevices (NewDeviceInfo lm nvmlLib) = Inr migs"
    from h have h1: "GetDevicesWithMigEnabled (NewDeviceInfo lm nvmlLib) = Inr en" and h2: "en \<noteq> []"
      and h3: "AnyMigEnabledDeviceIsEmpty (NewDeviceInfo lm nvmlLib) = Inr False"
      and h4: "GetDevicesWithMigDisabled (NewDeviceInfo lm nvmlLib) = Inr []"
      and h5: "GetAllMigDevices (NewDeviceInfo lm nvmlLib) = Inr migs"
      by simp_all
    show "newMigStrategySingleLabeler lm nvmlLib config =
               ([], newMIGDeviceLabelers lm
                      [(f, \<lparr>name = ''nvidia.com/gpu'', device = Some (hd migs),
                            count = int (length migs)\<rparr>)] config)"
      using h2 by (simp add: newMigStrategySingleLabeler_def h1 h3 h4 h5 3 [OF s])
  qed
qed

theorem aggregation_counts_witness:
  "map getMigDeviceName
     [mig_3g20gb, mig_3g20gb, mig_3g20gb, mig_3g20gb, mig_3g20gb, mig_3g20gb, mig_3g20gb] =
   map Inr [''3g.20gb'', ''3g.20gb'', ''3g.20gb'', ''3g.20gb'', ''3g.20gb'', ''3g.20gb'', ''3g.20gb''] \<and>
   single_resources
     [mig_3g20gb, mig_3g20gb, mig_3g20gb, mig_3g20gb, mig_3g20gb, mig_3g20gb, mig_3g20gb] [] =
     Inr [(''3g.20gb'', \<lparr>name = ''nvidia.com/gpu'', device = Some mig_3g20gb, count = 7\<rparr>)] \<and>
   newMigStrategySingleLabeler sample_lm node_3_4 \<lparr>MigStrategy = ''single''\<rparr> =
     ([], Inr (list [LabelsOf [(''nvidia.com/gpu.count'', ''7'')]]))"
proof -
  let ?M = "[mig_3g20gb, mig_3g20gb, mig_3g20gb, mig_3g20gb, mig_3g20gb, mig_3g20gb, mig_3g20gb]"
  let ?ns = "[''3g.20gb'', ''3g.20gb'', ''3g.20gb'', ''3g.20gb'', ''3g.20gb'', ''3g.20gb'', ''3g.20gb'']"
  let ?c = "\<lparr>MigStrategy = ''single''\<rparr>"
  have h: "map getMigDeviceName ?M = map Inr ?ns"
    by (simp add: mig_3g20gb_def getMigDeviceName_samples)
  have s: "set ?ns = {''3g.20gb''}" by simp
  have i: "GetDevicesWithMigEnabled (NewDeviceInfo sample_lm node_3_4) =
        Inr [gpu a100 True [mig_3g20gb, mig_3g20gb, mig_3g20gb],
             gpu a100 True [mig_3g20gb, mig_3g20gb, mig_3g20gb, mig_3g20gb]] \<and>
      [gpu a100 True [mig_3g20gb, mig_3g20gb, mig_3g20gb],
       gpu a100 True [mig_3g20gb, mig_3g20gb, mig_3g20gb, mig_3g20gb]] \<noteq> [] \<and>
      AnyMigEnabledDeviceIsEmpty (NewDeviceInfo sample_lm node_3_4) = Inr False \<and>
      GetDevicesWithMigDisabled (NewDeviceInfo sample_lm node_3_4) = Inr [] \<and>
      GetAllMigDevices (NewDeviceInfo sample_lm node_3_4) = Inr ?M"
    by (simp add: node_3_4_inventory)
  from aggregation_counts [OF h, of sample_lm node_3_4 _ ?c]
  have t: "single_resources ?M [] =
       Inr [(''3g.20gb'', \<lparr>name = ''nvidia.com/gpu'', device = Some (hd ?M), count = int (length ?M)\<rparr>)]"
    and u: "newMigStrategySingleLabeler sample_lm node_3_4 ?c =
       ([], newMIGDeviceLabelers sample_lm
              [(''3g.20gb'', \<lparr>name = ''nvidia.com/gpu'', device = Some (hd ?M),
                    count = int (length ?M)\<rparr>)] ?c)"
    using s i by blast+
  from t have t': "single_resources ?M [] =
     Inr [(''3g.20gb'', \<lparr>name = ''nvidia.com/gpu'', device = Some mig_3g20gb, count = 7\<rparr>)]"
    by simp
  from u have u': "newMigStrategySingleLabeler sample_lm node_3_4 ?c =
     ([], Inr (list [LabelsOf [(''nvidia.com/gpu.count'', ''7'')]]))"
    by (simp add: newMIGDeviceLabelers_def sample_lm_fields Sprintf_d_digits)
  from h t' u' show ?thesis by blast
qed

subsection \<open>The order of the checks of strategy single\<close>

lemma node_enabled_disabled_inventory:
  "NewDeviceInfo sample_lm node_enabled_disabled =
     \<lparr>GetDevicesWithMigEnabled = Inr [gpu a100 True [mig_3g20gb]],
      AnyMigEnabledDeviceIsEmpty = Inr False,
      GetDevicesWithMigDisabled = Inr [gpu a100 False []],
      GetAllMigDevices = Inr [mig_3g20gb]\<rparr>"
  by (simp add: sample_lm_fields(1) node_enabled_disabled_def spec_inventory_defs)

lemma sample_invalid_labels:
  "newInvalidMigStrategyLabeler sample_lm (node (gpu a100 e ms # ds)) reason =
     ([''WARNING: Invalid configuration detected for mig-strategy=single: '' @ reason],
      Inr (LabelsOf [(''nvidia.com/gpu.product'', ''A100-MIG-INVALID''),
                     (''nvidia.com/gpu.count'', ''0''), (''nvidia.com/gpu.memory'', ''0'')]))"
  by (simp add: newInvalidMigStrategyLabeler_def node_def gpu_def a100_def sample_lm_fields
      Sprintf_d_digits)

text \<open>
  Claim C1: under strategy \<^verbatim>\<open>single\<close> with a non-empty list of MIG-enabled devices the
  checks run in the order emptiness, mixed enablement, number of flavors, and the first one
  violated gives the reason of the warning and the result. When a MIG-enabled device is
  empty, the result is the invalid labeler with the emptiness reason whatever the two later
  queries would return (nothing is assumed of them, they may fail); when none is empty and
  the list of MIG-disabled devices is not empty, it is the invalid labeler with the
  mixed-enablement reason whatever the list of MIG devices would be; only then do the MIG
  devices decide. A node with one MIG-enabled device that is not empty and one MIG-disabled
  device gets the invalid labels with the mixed-enablement reason.
\<close>

theorem single_check_order:
  assumes "GetDevicesWithMigEnabled (NewDeviceInfo lm nvmlLib) = Inr en" and "en \<noteq> []"
  shows
   "(AnyMigEnabledDeviceIsEmpty (NewDeviceInfo lm nvmlLib) = Inr True \<longrightarrow>
       newMigStrategySingleLabeler lm nvmlLib config =
         newInvalidMigStrategyLabeler lm nvmlLib ''at least one MIG device is enabled but empty'') \<and>
    (AnyMigEnabledDeviceIsEmpty (NewDeviceInfo lm nvmlLib) = Inr False \<and>
     GetDevicesWithMigDisabled (NewDeviceInfo lm nvmlLib) = Inr dis \<and> dis \<noteq> [] \<longrightarrow>
       newMigStrategySingleLabeler lm nvmlLib config =
         newInvalidMigStrategyLabeler lm nvmlLib ''devices with MIG enabled and disable detected'') \<and>
    (AnyMigEnabledDeviceIsEmpty (NewDeviceInfo lm nvmlLib) = Inr False \<and>
     GetDevicesWithMigDisabled (NewDeviceInfo lm nvmlLib) = Inr [] \<and>
     GetAllMigDevices (NewDeviceInfo lm nvmlLib) = Inr migs \<and>
     single_resources migs [] = Inr rs \<longrightarrow>
       newMigStrategySingleLabeler lm nvmlLib config =
         (if length rs \<noteq> 1
          then newInvalidMigStrategyLabeler lm nvmlLib ''more than one MIG device type present on node''
          else ([], newMIGDeviceLabelers lm rs config))) \<and>
    (\<forall>reason. fst (newInvalidMigStrategyLabeler lm nvmlLib reason) =
       [''WARNING: Invalid configuration detected for mig-strategy=single: '' @ reason])"
  using assms
  by (simp add: newMigStrategySingleLabeler_def newInvalidMigStrategyLabeler_def)

theorem single_check_order_witness:
  "GetDevicesWithMigEnabled (NewDeviceInfo sample_lm node_enabled_disabled) =
     Inr [gpu a100 True [mig_3g20gb]] \<and>
   AnyMigEnabledDeviceIsEmpty (NewDeviceInfo sample_lm node_enabled_disabled) = Inr False \<and>
   GetDevicesWithMigDisabled (NewDeviceInfo sample_lm node_enabled_disabled) =
     Inr [gpu a100 False []] \<and>
   newMigStrategySingleLabeler sample_lm node_enabled_disabled \<lparr>MigStrategy = ''single''\<rparr> =
     ([''WARNING: Invalid configuration detected for mig-strategy=single: devices with MIG enabled and disable detected''],
      Inr (LabelsOf [(''nvidia.com/gpu.product'', ''A100-MIG-INVALID''),
                     (''nvidia.com/gpu.count'', ''0''), (''nvidia.com/gpu.memory'', ''0'')]))"
proof -
  let ?c = "\<lparr>MigStrategy = ''single''\<rparr>"
  have a: "GetDevicesWithMigEnabled (NewDeviceInfo sample_lm node_enabled_disabled) =
     Inr [gpu a100 True [mig_3g20gb]]"
    and b: "[gpu a100 True [mig_3g20gb]] \<noteq> []"
    and c: "AnyMigEnabledDeviceIsEmpty (NewDeviceInfo sample_lm node_enabled_disabled) = Inr False"
    and d: "GetDevicesWithMigDisabled (NewDeviceInfo sample_lm node_enabled_disabled) =
     Inr [gpu a100 False []]"
    and e: "[gpu a100 False []] \<noteq> []"
    by (simp_all add: node_enabled_disabled_inventory)
  from single_check_order [OF a b, of ?c "[gpu a100 False []]"] c d e
  have "newMigStrategySingleLabeler sample_lm node_enabled_disabled ?c =
      newInvalidMigStrategyLabeler sample_lm node_enabled_disabled
        ''devices with MIG enabled and disable detected''"
    by blast
  then have "newMigStrategySingleLabeler sample_lm node_enabled_disabled ?c =
     ([''WARNING: Invalid configuration detected for mig-strategy=single: devices with MIG enabled and disable detected''],
      Inr (LabelsOf [(''nvidia.com/gpu.product'', ''A100-MIG-INVALID''),
                     (''nvidia.com/gpu.count'', ''0''), (''nvidia.com/gpu.memory'', ''0'')]))"
    by (simp add: node_enabled_disabled_def sample_invalid_labels)
  with a c d show ?thesis by blast
qed

subsection \<open>Strategy mixed\<close>




lemma sample_names:
  "getMigDeviceName mig_3g20gb = Inr ''3g.20gb''"
  "getMigDeviceName mig_1g5gb = Inr ''1g.5gb''"
  "getMigDeviceName mig_2g10gb = Inr ''2g.10gb''"
  by (simp_all add: mig_3g20gb_def mig_1g5gb_def mig_2g10gb_def getMigDeviceName_samples)




subsection \<open>The flavor check of strategy single, on the inventory of the specification\<close>

lemma collect_length: "collect f xs = Inr ys \<Longrightarrow> length ys = length xs"
  by (induction xs arbitrary: ys) (auto split: sum.splits)

lemma spec_build_parts:
  assumes "spec_build devices = Inr inventory"
  shows "\<exists>parts. collect GetMigDevices (enabledDevices inventory) = Inr parts \<and>
     anyEmpty inventory = list_ex (\<lambda>ps. ps = []) parts \<and>
     allPartitions inventory = concat parts"
  using assms
  by (auto simp: spec_build_def Let_def split: sum.splits)

lemma spec_NewDeviceInfo_success:
  assumes "GetDevicesWithMigEnabled (spec_NewDeviceInfo nvmlLib) = Inr en"
  shows "\<exists>devices inventory. spec_build devices = Inr inventory \<and>
     en = enabledDevices inventory \<and>
     AnyMigEnabledDeviceIsEmpty (spec_NewDeviceInfo nvmlLib) = Inr (anyEmpty inventory) \<and>
     GetDevicesWithMigDisabled (spec_NewDeviceInfo nvmlLib) = Inr (disabledDevices inventory) \<and>
     GetAllMigDevices (spec_NewDeviceInfo nvmlLib) = Inr (allPartitions inventory)"
  using assms
  by (auto simp: spec_NewDeviceInfo_def split: sum.splits)

lemma concat_nonempty:
  assumes "parts \<noteq> []" and "\<not> list_ex (\<lambda>ps. ps = []) parts"
  shows "concat parts \<noteq> []"
proof -
  from assms(1) obtain p ps where p: "parts = p # ps" by (cases parts) simp_all
  with assms(2) have "p \<noteq> []" by simp
  with p show ?thesis by simp
qed

lemma spec_inventory_partitions_nonempty:
  assumes e: "GetDevicesWithMigEnabled (spec_NewDeviceInfo nvmlLib) = Inr en" and ne: "en \<noteq> []"
    and a: "AnyMigEnabledDeviceIsEmpty (spec_NewDeviceInfo nvmlLib) = Inr False"
  shows "\<exists>migs. GetAllMigDevices (spec_NewDeviceInfo nvmlLib) = Inr migs \<and> migs \<noteq> []"
proof -
  from spec_NewDeviceInfo_success [OF e]
  obtain devices inventory where b: "spec_build devices = Inr inventory"
    and en: "en = enabledDevices inventory"
    and ae: "AnyMigEnabledDeviceIsEmpty (spec_NewDeviceInfo nvmlLib) = Inr (anyEmpty inventory)"
    and g: "GetAllMigDevices (spec_NewDeviceInfo nvmlLib) = Inr (allPartitions inventory)"
    by blast
  from spec_build_parts [OF b]
  obtain parts where c: "collect GetMigDevices (enabledDevices inventory) = Inr parts"
    and x: "anyEmpty inventory = list_ex (\<lambda>ps. ps = []) parts"
    and y: "allPartitions inventory = concat parts"
    by blast
  from collect_length [OF c] en ne have "parts \<noteq> []" by auto
  moreover from a ae x have "\<not> list_ex (\<lambda>ps. ps = []) parts" by simp
  ultimately have "concat parts \<noteq> []" by (rule concat_nonempty)
  with g y show ?thesis by simp
qed

lemma node_two_flavors_inventory:
  "spec_NewDeviceInfo node_two_flavors =
     \<lparr>GetDevicesWithMigEnabled = Inr [gpu a100 True [mig_3g20gb], gpu a100 True [mig_1g5gb]],
      AnyMigEnabledDeviceIsEmpty = Inr False,
      GetDevicesWithMigDisabled = Inr [],
      GetAllMigDevices = Inr [mig_3g20gb, mig_1g5gb]\<rparr>"
  by (simp add: node_two_flavors_def spec_inventory_defs)

text \<open>
  Claim C8: with the inventory of the specification, under strategy \<^verbatim>\<open>single\<close>, when the
  list of MIG-enabled devices is not empty, no MIG-enabled device is empty and no device is
  MIG-disabled, the list of MIG devices is not empty; so, their names read, the map of
  resources is not empty, its size is the number of distinct names, the test
  \<^verbatim>\<open>len(resources) != 1\<close> holds exactly when the size is more than one, and the invalid
  labeler of the flavor check is returned exactly when there is more than one distinct
  name. The size zero does not occur.
\<close>

theorem single_flavor_check:
  assumes i: "NewDeviceInfo lm = spec_NewDeviceInfo"
    and e: "GetDevicesWithMigEnabled (spec_NewDeviceInfo nvmlLib) = Inr en" and ne: "en \<noteq> []"
    and a: "AnyMigEnabledDeviceIsEmpty (spec_NewDeviceInfo nvmlLib) = Inr False"
    and d: "GetDevicesWithMigDisabled (spec_NewDeviceInfo nvmlLib) = Inr []"
  shows "\<exists>migs. GetAllMigDevices (spec_NewDeviceInfo nvmlLib) = Inr migs \<and> migs \<noteq> [] \<and>
     (\<forall>ns. map getMigDeviceName migs = map Inr ns \<longrightarrow>
        (\<exists>rs. single_resources migs [] = Inr rs \<and> rs \<noteq> [] \<and> length rs = card (set ns) \<and>
           (length rs \<noteq> 1 \<longleftrightarrow> 1 < length rs) \<and>
           newMigStrategySingleLabeler lm nvmlLib config =
             (if 1 < card (set ns)
              then newInvalidMigStrategyLabeler lm nvmlLib
                     ''more than one MIG device type present on node''
              else ([], newMIGDeviceLabelers lm rs config))))"
proof -
  from spec_inventory_partitions_nonempty [OF e ne a]
  obtain migs where g: "GetAllMigDevices (spec_NewDeviceInfo nvmlLib) = Inr migs"
    and m: "migs \<noteq> []" by blast
  have "\<exists>rs. single_resources migs [] = Inr rs \<and> rs \<noteq> [] \<and> length rs = card (set ns) \<and>
           (length rs \<noteq> 1 \<longleftrightarrow> 1 < length rs) \<and>
           newMigStrategySingleLabeler lm nvmlLib config =
             (if 1 < card (set ns)
              then newInvalidMigStrategyLabeler lm nvmlLib
                     ''more than one MIG device type present on node''
              else ([], newMIGDeviceLabelers lm rs config))"
    if n: "map getMigDeviceName migs = map Inr ns" for ns
  proof -
    from resources_loop_empty [OF n, of "\<lambda>nm. ''nvidia.com/gpu''"]
    obtain rs where r: "single_resources migs [] = Inr rs"
      and k: "fst ` set rs = set ns" and l: "length rs = card (set ns)"
      unfolding single_resources_loop by blast
    have "length migs = length ns" using n by (rule map_eq_imp_length_eq)
    with m have "ns \<noteq> []" by auto
    then have "set ns \<noteq> {}" by simp
    with k have rne: "rs \<noteq> []" by auto
    then have pos: "0 < length rs" by simp
    have iff: "length rs \<noteq> 1 \<longleftrightarrow> 1 < length rs" using pos by linarith
    have lab: "newMigStrategySingleLabeler lm nvmlLib config =
             (if 1 < card (set ns)
              then newInvalidMigStrategyLabeler lm nvmlLib
                     ''more than one MIG device type present on node''
              else ([], newMIGDeviceLabelers lm rs config))"
      using ne iff by (simp add: newMigStrategySingleLabeler_def i e a d g r l [symmetric])
    from r rne l iff lab show ?thesis by blast
  qed
  with g m show ?thesis by blast
qed

theorem single_flavor_check_witness:
  "NewDeviceInfo sample_lm = spec_NewDeviceInfo \<and>
   GetDevicesWithMigEnabled (spec_NewDeviceInfo node_two_flavors) =
     Inr [gpu a100 True [mig_3g20gb], gpu a100 True [mig_1g5gb]] \<and>
   AnyMigEnabledDeviceIsEmpty (spec_NewDeviceInfo node_two_flavors) = Inr False \<and>
   GetDevicesWithMigDisabled (spec_NewDeviceInfo node_two_flavors) = Inr [] \<and>
   GetAllMigDevices (spec_NewDeviceInfo node_two_flavors) = Inr [mig_3g20gb, mig_1g5gb] \<and>
   map getMigDeviceName [mig_3g20gb, mig_1g5gb] = map Inr [''3g.20gb'', ''1g.5gb''] \<and>
   card (set [''3g.20gb'', ''1g.5gb'']) = 2 \<and>
   newMigStrategySingleLabeler sample_lm node_two_flavors \<lparr>MigStrategy = ''single''\<rparr> =
     ([''WARNING: Invalid configuration detected for mig-strategy=single: more than one MIG device type present on node''],
      Inr (LabelsOf [(''nvidia.com/gpu.product'', ''A100-MIG-INVALID''),
                     (''nvidia.com/gpu.count'', ''0''), (''nvidia.com/gpu.memory'', ''0'')]))"
proof -
  let ?c = "\<lparr>MigStrategy = ''single''\<rparr>"
  let ?ns = "[''3g.20gb'', ''1g.5gb'']"
  have i: "NewDeviceInfo sample_lm = spec_NewDeviceInfo" by (simp add: sample_lm_def)
  have e: "GetDevicesWithMigEnabled (spec_NewDeviceInfo node_two_flavors) =
     Inr [gpu a100 True [mig_3g20gb], gpu a100 True [mig_1g5gb]]"
    and ne: "[gpu a100 True [mig_3g20gb], gpu a100 True [mig_1g5gb]] \<noteq> []"
    and a: "AnyMigEnabledDeviceIsEmpty (spec_NewDeviceInfo node_two_flavors) = Inr False"
    and d: "GetDevicesWithMigDisabled (spec_NewDeviceInfo node_two_flavors) = Inr []"
    and g: "GetAllMigDevices (spec_NewDeviceInfo node_two_flavors) = Inr [mig_3g20gb, mig_1g5gb]"
    by (simp_all add: node_two_flavors_inventory)
  have n: "map getMigDeviceName [mig_3g20gb, mig_1g5gb] = map Inr ?ns"
    by (simp add: sample_names)
  have c: "card (set ?ns) = 2" by simp
  from single_flavor_check [OF i e ne a d, of ?c]
  obtain migs where g': "GetAllMigDevices (spec_NewDeviceInfo node_two_flavors) = Inr migs"
    and all: "\<And>ns. map getMigDeviceName migs = map Inr ns \<Longrightarrow>
        \<exists>rs. newMigStrategySingleLabeler sample_lm node_two_flavors ?c =
             (if 1 < card (set ns)
              then newInvalidMigStrategyLabeler sample_lm node_two_flavors
                     ''more than one MIG device type present on node''
              else ([], newMIGDeviceLabelers sample_lm rs ?c))"
    by blast
  from g g' have "migs = [mig_3g20gb, mig_1g5gb]" by simp
  with all [of ?ns] n c
  have "newMigStrategySingleLabeler sample_lm node_two_flavors ?c =
      newInvalidMigStrategyLabeler sample_lm node_two_flavors
        ''more than one MIG device type present on node''"
    by simp
  then have "newMigStrategySingleLabeler sample_lm node_two_flavors ?c =
     ([''WARNING: Invalid configuration detected for mig-strategy=single: more than one MIG device type present on node''],
      Inr (LabelsOf [(''nvidia.com/gpu.product'', ''A100-MIG-INVALID''),
                     (''nvidia.com/gpu.count'', ''0''), (''nvidia.com/gpu.memory'', ''0'')]))"
    by (simp add: node_two_flavors_def sample_invalid_labels)
  with i e a d g n c show ?thesis by blast
qed

end
